theory Spec2Isabelle
  imports Main
begin

section \<open>Python values the logger relies on\<close>

text \<open>
  The program is one Python script. A Python \<open>str\<close> is modelled as a list of code
  points below 256 (every character of the script is one), so \<open>length\<close> is Python's
  \<open>len\<close>. Python's unbounded \<open>int\<close> is \<open>int\<close>. The exceptions that can leave the
  script are values of \<open>py_error\<close>.
\<close>

datatype py_error = ValueError | EOFError | KeyboardInterrupt

subsection \<open>\<open>str\<close> of an integer and the format specifications of the f-strings\<close>

definition digit_char :: "nat \<Rightarrow> char" where
  "digit_char n = ''0123456789'' ! n"

fun str_nat :: "nat \<Rightarrow> string" where
  "str_nat n = (if n < 10 then [digit_char n] else str_nat (n div 10) @ [digit_char (n mod 10)])"

declare str_nat.simps [simp del]

text \<open>\<open>str(i)\<close>, which is also what \<open>f"{i}"\<close> gives for an integer.\<close>

definition str_int :: "int \<Rightarrow> string" where
  "str_int i = (if i < 0 then ''-'' @ str_nat (nat (- i)) else str_nat (nat i))"

text \<open>The format specification \<open><w\<close>: left aligned, filled with spaces up to width \<open>w\<close>.\<close>

definition ljust :: "nat \<Rightarrow> string \<Rightarrow> string" where
  "ljust w s = s @ replicate (w - length s) CHR '' ''"

text \<open>A non-negative number zero-filled to \<open>w\<close> digits, as \<open>strftime\<close> writes its fields.\<close>

definition zero_pad :: "nat \<Rightarrow> int \<Rightarrow> string" where
  "zero_pad w i = replicate (w - length (str_int i)) CHR ''0'' @ str_int i"

subsection \<open>\<open>datetime\<close>\<close>

text \<open>
  A naive \<open>datetime\<close> with its seven fields. \<open>a - b\<close> is a \<open>timedelta\<close>, modelled by its
  exact length in microseconds (Python computes it from the two proleptic Gregorian
  ordinals, the seconds of the day and the microseconds). Python builds no datetime
  with a field out of range, so the month of a datetime is one of 1 to 12.
\<close>

record datetime =
  year :: int
  month :: int
  day :: int
  hour :: int
  minute :: int
  second :: int
  microsecond :: int

definition is_leap :: "int \<Rightarrow> bool" where
  "is_leap y = (y mod 4 = 0 \<and> (y mod 100 \<noteq> 0 \<or> y mod 400 = 0))"

definition days_before_year :: "int \<Rightarrow> int" where
  "days_before_year y = (y - 1) * 365 + (y - 1) div 4 - (y - 1) div 100 + (y - 1) div 400"

definition days_before_month :: "int \<Rightarrow> int \<Rightarrow> int" where
  "days_before_month y m =
     [0, 31, 59, 90, 120, 151, 181, 212, 243, 273, 304, 334] ! nat (m - 1)
       + (if m > 2 \<and> is_leap y then 1 else 0)"

definition toordinal :: "datetime \<Rightarrow> int" where
  "toordinal d = days_before_year (year d) + days_before_month (year d) (month d) + day d"

definition to_microseconds :: "datetime \<Rightarrow> int" where
  "to_microseconds d =
     (toordinal d * 86400 + hour d * 3600 + minute d * 60 + second d) * 1000000 + microsecond d"

text \<open>\<open>a - b\<close> on two datetimes: the timedelta, in microseconds.\<close>

definition dt_sub :: "datetime \<Rightarrow> datetime \<Rightarrow> int" where
  "dt_sub a b = to_microseconds a - to_microseconds b"

text \<open>
  \<open>int(td.total_seconds())\<close>: \<open>total_seconds\<close> divides the microseconds by \<open>10**6\<close> and
  \<open>int\<close> cuts the fraction off, towards zero. The quotient is a float, rounded to the
  nearest double. The definition below is the cut of the exact quotient: it is the
  value Python computes for every delta shorter than \<open>2 ^ 34\<close> seconds (some 544 years,
  where the deltas of a run are within a day or two); from \<open>2 ^ 34\<close> seconds on the
  float can round up to the next whole second before \<open>int\<close> cuts it. Whether the whole
  seconds are positive, zero or negative is the same for the float and for the exact
  quotient at every delta, since the bounds of one second are floats themselves. A
  statement of the exact number of seconds carries the bound \<open>delta_in_float_range\<close>.
\<close>

definition int_total_seconds :: "int \<Rightarrow> int" where
  "int_total_seconds td = (if td \<ge> 0 then td div 1000000 else - ((- td) div 1000000))"

definition delta_in_float_range :: "int \<Rightarrow> bool" where
  "delta_in_float_range td = (\<bar>td\<bar> < 2 ^ 34 * 1000000)"

text \<open>\<open>strftime\<close> with the three formats of the script (years of four digits).\<close>

definition strftime_HM :: "datetime \<Rightarrow> string" where
  "strftime_HM d = zero_pad 2 (hour d) @ '':'' @ zero_pad 2 (minute d)"

definition strftime_HMS :: "datetime \<Rightarrow> string" where
  "strftime_HMS d = strftime_HM d @ '':'' @ zero_pad 2 (second d)"

definition strftime_YmdHMS :: "datetime \<Rightarrow> string" where
  "strftime_YmdHMS d =
     zero_pad 4 (year d) @ ''-'' @ zero_pad 2 (month d) @ ''-'' @ zero_pad 2 (day d)
       @ '' '' @ strftime_HMS d"

text \<open>
  \<open>datetime.strptime(s, "%H:%M")\<close>. The hour is read by the pattern
  \<open>2[0-3]|[0-1]\d|\d\<close>, the minute by \<open>[0-5]\d|\d\<close>, a colon stands between them, and
  text left over after the minute is a \<open>ValueError\<close>, as is a string the pattern does not
  match. The date of the result is 1900-01-01.
\<close>

definition is_digit :: "char \<Rightarrow> bool" where
  "is_digit c = (c \<in> set ''0123456789'')"

definition digit_val :: "char \<Rightarrow> int" where
  "digit_val c = int (of_char c) - 48"

definition parse_hour :: "string \<Rightarrow> (int \<times> string) option" where
  "parse_hour s =
     (case s of
        [] \<Rightarrow> None
      | [h1] \<Rightarrow> if is_digit h1 then Some (digit_val h1, []) else None
      | h1 # h2 # r \<Rightarrow>
          if (h1 = CHR ''2'' \<and> h2 \<in> set ''0123'') \<or> (h1 \<in> set ''01'' \<and> is_digit h2)
          then Some (10 * digit_val h1 + digit_val h2, r)
          else if is_digit h1 then Some (digit_val h1, h2 # r)
          else None)"

definition parse_minute :: "string \<Rightarrow> (int \<times> string) option" where
  "parse_minute s =
     (case s of
        [] \<Rightarrow> None
      | [m1] \<Rightarrow> if is_digit m1 then Some (digit_val m1, []) else None
      | m1 # m2 # r \<Rightarrow>
          if m1 \<in> set ''012345'' \<and> is_digit m2
          then Some (10 * digit_val m1 + digit_val m2, r)
          else if is_digit m1 then Some (digit_val m1, m2 # r)
          else None)"

definition strptime_HM :: "string \<Rightarrow> py_error + datetime" where
  "strptime_HM s =
     (case parse_hour s of
        None \<Rightarrow> Inl ValueError
      | Some (h, r) \<Rightarrow>
          (case r of
             [] \<Rightarrow> Inl ValueError
           | c # r' \<Rightarrow>
               if c \<noteq> CHR '':'' then Inl ValueError
               else (case parse_minute r' of
                       None \<Rightarrow> Inl ValueError
                     | Some (m, rest) \<Rightarrow>
                         if rest \<noteq> [] then Inl ValueError
                         else Inr \<lparr>year = 1900, month = 1, day = 1, hour = h, minute = m,
                                   second = 0, microsecond = 0\<rparr>)))"

section \<open>The schedule\<close>

text \<open>
  An entry of \<open>bus_stops\<close> is a dict with the keys \<open>sequence\<close>, \<open>time\<close> and \<open>stop\<close>; the
  start-up loop adds the key \<open>target_time\<close> to each.
\<close>

record stop_entry =
  sequence :: int
  time :: string
  stop :: string

record bus_stop = stop_entry +
  target_time :: datetime

definition bus_stops :: "stop_entry list" where
  "bus_stops =
     [\<lparr>sequence = 1, time = ''09:43'', stop = ''Grand-Lancy, Stade de Gen'' @ [CHR 0xE8] @ ''ve''\<rparr>,
      \<lparr>sequence = 2, time = ''09:45'', stop = ''Lancy-Pont-Rouge, gare/Etoile''\<rparr>,
      \<lparr>sequence = 3, time = ''09:47'', stop = ''Lancy-Pont-Rouge, gare''\<rparr>,
      \<lparr>sequence = 4, time = ''09:49'', stop = ''Petit-Lancy, place''\<rparr>,
      \<lparr>sequence = 5, time = ''09:51'', stop = ''Les Esserts''\<rparr>,
      \<lparr>sequence = 6, time = ''09:52'', stop = ''Onex, Bandol''\<rparr>,
      \<lparr>sequence = 7, time = ''09:54'', stop = ''Salle communale''\<rparr>,
      \<lparr>sequence = 8, time = ''09:55'', stop = ''Con'' @ [CHR 0xE9] @ ''gnon, La Dode''\<rparr>,
      \<lparr>sequence = 9, time = ''09:56'', stop = ''crois'' @ [CHR 0xE9] @ ''e''\<rparr>,
      \<lparr>sequence = 10, time = ''09:58'', stop = ''Bernex, P+R''\<rparr>]"

text \<open>
  The start-up loop: the target time of a stop is its \<open>HH:MM\<close> on the day the run starts
  (\<open>today\<close> is \<open>datetime.now()\<close> at start-up).
\<close>

definition add_target_time :: "datetime \<Rightarrow> stop_entry \<Rightarrow> py_error + bus_stop" where
  "add_target_time today s =
     (case strptime_HM (time s) of
        Inl e \<Rightarrow> Inl e
      | Inr t \<Rightarrow>
          Inr \<lparr>sequence = sequence s, time = time s, stop = stop s,
               target_time = t\<lparr>year := year today, month := month today, day := day today\<rparr>\<rparr>)"

fun convert_targets :: "datetime \<Rightarrow> stop_entry list \<Rightarrow> py_error + bus_stop list" where
  "convert_targets today [] = Inr []"
| "convert_targets today (s # ss) =
     (case add_target_time today s of
        Inl e \<Rightarrow> Inl e
      | Inr b \<Rightarrow> (case convert_targets today ss of Inl e \<Rightarrow> Inl e | Inr bs \<Rightarrow> Inr (b # bs)))"

section \<open>Deviation and its colour\<close>

definition RED :: string where "RED = [CHR 0x1B] @ ''[91m''"
definition GREEN :: string where "GREEN = [CHR 0x1B] @ ''[92m''"
definition YELLOW :: string where "YELLOW = [CHR 0x1B] @ ''[93m''"
definition RESET :: string where "RESET = [CHR 0x1B] @ ''[0m''"

definition format_deviation :: "datetime \<Rightarrow> datetime \<Rightarrow> string \<times> int \<times> int \<times> int" where
  "format_deviation actual_dt target_dt =
     (let total_seconds = int_total_seconds (dt_sub actual_dt target_dt);
          sign = (if total_seconds \<ge> 0 then ''+'' else ''-'');
          sec_abs = \<bar>total_seconds\<bar>;
          minutes = sec_abs div 60;
          seconds = sec_abs mod 60
      in (sign, minutes, seconds, total_seconds))"

text \<open>The source marks the three results as late, early and on time.\<close>

definition color_for_deviation :: "int \<Rightarrow> string" where
  "color_for_deviation total_seconds =
     (if total_seconds > 0 then RED
      else if total_seconds < 0 then GREEN
      else YELLOW)"

text \<open>The f-string \<open>f"{sign}{m}m {sec}s"\<close> of the view and of the export.\<close>

definition deviation_text :: "string \<times> int \<times> int \<times> int \<Rightarrow> string" where
  "deviation_text d = (case d of (sign, m, sec, total_sec) \<Rightarrow> sign @ str_int m @ ''m '' @ str_int sec @ ''s'')"

text \<open>
  The travel time \<open>f"{travel_sec//60}m {travel_sec%60}s"\<close> between two recorded arrivals,
  with \<open>travel_sec = int((actual_dt - prev_actual).total_seconds())\<close>; \<open>//\<close> and \<open>%\<close> round
  to the floor, as \<open>div\<close> and \<open>mod\<close> do.
\<close>

definition travel_sec :: "datetime \<Rightarrow> datetime \<Rightarrow> int" where
  "travel_sec actual_dt prev_actual = int_total_seconds (dt_sub actual_dt prev_actual)"

definition travel_text :: "int \<Rightarrow> string" where
  "travel_text t = str_int (t div 60) @ ''m '' @ str_int (t mod 60) @ ''s''"

section \<open>The program state and the console\<close>

text \<open>
  The mutable globals are the arrival record \<open>actual_times\<close> (a dict from sequence number
  to datetime, \<open>{}\<close> at start-up) and what has been written to standard output.
\<close>

record state =
  actual_times :: "int \<rightharpoonup> datetime"
  stdout :: string

definition write_out :: "string \<Rightarrow> state \<Rightarrow> state" where
  "write_out s st = st\<lparr>stdout := stdout st @ s\<rparr>"

text \<open>\<open>print(s)\<close> writes \<open>s\<close> and a newline.\<close>

definition print :: "string \<Rightarrow> state \<Rightarrow> state" where
  "print s st = write_out (s @ [CHR 0x0A]) st"

section \<open>The tail view\<close>

text \<open>
  One iteration of the loop of \<open>print_tail_view\<close> computes six values and prints them in
  one line. A datetime is never false in Python, so \<open>if actual_dt\<close> asks whether the stop
  has a record.
\<close>

record view_row =
  seq :: int
  name :: string
  target_str :: string
  actual_str :: string
  deviation_colored :: string
  travel_str :: string

definition tail_row :: "(int \<rightharpoonup> datetime) \<Rightarrow> datetime option \<Rightarrow> bus_stop \<Rightarrow> view_row" where
  "tail_row at prev_actual s =
     \<lparr>seq = sequence s,
      name = stop s,
      target_str = strftime_HM (target_time s),
      actual_str = (case at (sequence s) of Some actual_dt \<Rightarrow> strftime_HMS actual_dt | None \<Rightarrow> ''-''),
      deviation_colored =
        (case at (sequence s) of
           Some actual_dt \<Rightarrow>
             (case format_deviation actual_dt (target_time s) of
                (sign, m, sec, total_sec) \<Rightarrow>
                  color_for_deviation total_sec @ deviation_text (sign, m, sec, total_sec) @ RESET)
         | None \<Rightarrow> ''-''),
      travel_str =
        (case at (sequence s) of
           Some actual_dt \<Rightarrow>
             (case prev_actual of
                Some p \<Rightarrow> travel_text (travel_sec actual_dt p)
              | None \<Rightarrow> ''-'')
         | None \<Rightarrow> ''-'')\<rparr>"

text \<open>The last statement of an iteration: \<open>prev_actual\<close> moves to a stop that has a record.\<close>

definition next_prev :: "(int \<rightharpoonup> datetime) \<Rightarrow> datetime option \<Rightarrow> bus_stop \<Rightarrow> datetime option" where
  "next_prev at prev_actual s =
     (case at (sequence s) of Some actual_dt \<Rightarrow> Some actual_dt | None \<Rightarrow> prev_actual)"

definition format_view_row :: "view_row \<Rightarrow> string" where
  "format_view_row r =
     ljust 3 (str_int (seq r)) @ '' '' @ ljust 25 (name r) @ '' '' @ ljust 6 (target_str r) @ '' ''
       @ ljust 8 (actual_str r) @ '' '' @ ljust 12 (deviation_colored r) @ '' '' @ travel_str r"

fun tail_loop :: "bus_stop list \<Rightarrow> datetime option \<Rightarrow> state \<Rightarrow> state" where
  "tail_loop [] prev_actual st = st"
| "tail_loop (s # ss) prev_actual st =
     tail_loop ss (next_prev (actual_times st) prev_actual s)
       (print (format_view_row (tail_row (actual_times st) prev_actual s)) st)"

definition view_header :: string where
  "view_header =
     ljust 3 ''Seq'' @ '' '' @ ljust 25 ''Stop'' @ '' '' @ ljust 6 ''Target'' @ '' ''
       @ ljust 8 ''Actual'' @ '' '' @ ljust 12 ''Deviation'' @ '' '' @ ''From prev''"

definition print_tail_view :: "bus_stop list \<Rightarrow> state \<Rightarrow> state" where
  "print_tail_view stops st =
     print (''-----------------------'' @ [CHR 0x0A])
       (tail_loop stops None
          (print view_header
             (print ([CHR 0x0A] @ ''--- Bus Trip Status ---'') st)))"

text \<open>The rows of one view, in the order the loop prints them.\<close>

fun tail_rows :: "(int \<rightharpoonup> datetime) \<Rightarrow> datetime option \<Rightarrow> bus_stop list \<Rightarrow> view_row list" where
  "tail_rows at prev_actual [] = []"
| "tail_rows at prev_actual (s # ss) =
     tail_row at prev_actual s # tail_rows at (next_prev at prev_actual s) ss"

section \<open>The export\<close>

text \<open>
  \<open>writer.writerow\<close> receives a list of integers and strings; the export is modelled as the
  list of rows handed to the writer (how the \<open>csv\<close> module quotes a field is not part of
  the script).
\<close>

datatype cell = I int | S string

definition csv_header :: "cell list" where
  "csv_header =
     [S ''Sequence'', S ''Stop'', S ''Target Time'', S ''Actual Time'', S ''Deviation (+/-)'',
      S ''Deviation Secs'', S ''Travel From Prev'']"

definition export_row :: "(int \<rightharpoonup> datetime) \<Rightarrow> datetime option \<Rightarrow> bus_stop \<Rightarrow> cell list" where
  "export_row at prev_actual s =
     [I (sequence s),
      S (stop s),
      S (strftime_HM (target_time s)),
      S (case at (sequence s) of Some actual_dt \<Rightarrow> strftime_YmdHMS actual_dt | None \<Rightarrow> []),
      S (case at (sequence s) of
           Some actual_dt \<Rightarrow> deviation_text (format_deviation actual_dt (target_time s))
         | None \<Rightarrow> []),
      (case at (sequence s) of
         Some actual_dt \<Rightarrow>
           (case format_deviation actual_dt (target_time s) of
              (sign, m, sec, total_sec) \<Rightarrow> I total_sec)
       | None \<Rightarrow> S []),
      S (case at (sequence s) of
           Some actual_dt \<Rightarrow>
             (case prev_actual of
                Some p \<Rightarrow> travel_text (travel_sec actual_dt p)
              | None \<Rightarrow> [])
         | None \<Rightarrow> [])]"

fun export_rows :: "(int \<rightharpoonup> datetime) \<Rightarrow> datetime option \<Rightarrow> bus_stop list \<Rightarrow> cell list list" where
  "export_rows at prev_actual [] = []"
| "export_rows at prev_actual (s # ss) =
     export_row at prev_actual s # export_rows at (next_prev at prev_actual s) ss"

definition export_csv :: "bus_stop list \<Rightarrow> (int \<rightharpoonup> datetime) \<Rightarrow> cell list list" where
  "export_csv stops at = csv_header # export_rows at None stops"

section \<open>The main loop and the whole run\<close>

text \<open>
  What the run reads from outside: at each \<open>input(prompt)\<close> either a line arrives, and the
  \<open>datetime.now()\<close> that follows gives a time, or the user interrupts, or standard input is
  at its end (no event left), where \<open>input\<close> raises \<open>EOFError\<close>. Nothing catches an
  exception in the script.
\<close>

datatype input_event = is_Enter: Enter datetime | CtrlC

definition prompt :: "bus_stop \<Rightarrow> string" where
  "prompt s =
     ''Press ENTER at stop '' @ str_int (sequence s) @ '' - '' @ stop s @ '' (scheduled ''
       @ time s @ '') -> ''"

definition log_arrival :: "bus_stop list \<Rightarrow> bus_stop \<Rightarrow> datetime \<Rightarrow> state \<Rightarrow> state" where
  "log_arrival stops s now st =
     print_tail_view stops
       (print (''Logged: '' @ stop s @ '' at '' @ strftime_YmdHMS now)
          (st\<lparr>actual_times := (actual_times st)(sequence s \<mapsto> now)\<rparr>))"

fun main_loop :: "bus_stop list \<Rightarrow> bus_stop list \<Rightarrow> input_event list \<Rightarrow> state \<Rightarrow> py_error option \<times> state" where
  "main_loop stops [] evs st = (None, st)"
| "main_loop stops (s # ss) [] st = (Some EOFError, write_out (prompt s) st)"
| "main_loop stops (s # ss) (CtrlC # evs) st = (Some KeyboardInterrupt, write_out (prompt s) st)"
| "main_loop stops (s # ss) (Enter now # evs) st =
     main_loop stops ss evs (log_arrival stops s now (write_out (prompt s) st))"

text \<open>The states at the head of the loop: one for each iteration entered, and the state after the last stop.\<close>

fun loop_trace :: "bus_stop list \<Rightarrow> bus_stop list \<Rightarrow> input_event list \<Rightarrow> state \<Rightarrow> state list" where
  "loop_trace stops [] evs st = [st]"
| "loop_trace stops (s # ss) [] st = [st]"
| "loop_trace stops (s # ss) (CtrlC # evs) st = [st]"
| "loop_trace stops (s # ss) (Enter now # evs) st =
     st # loop_trace stops ss evs (log_arrival stops s now (write_out (prompt s) st))"

record outcome =
  raised :: "py_error option"
  console :: string
  csv :: "cell list list option"

definition banner :: string where
  "banner =
     ''Manual bus stop logger (with scheduled times)'' @ [CHR 0x0A]
       @ ''Press ENTER when the bus reaches each stop to log actual time.'' @ [CHR 0x0A]
       @ ''Script will show deviations vs scheduled times and travel time from previous stop.''
       @ [CHR 0x0A, CHR 0x0A]"

definition saved_message :: string where
  "saved_message =
     [CHR 0x0A] @ ''All logged data saved to '' @ [CHR 0x27] @ ''bus_trip_log.csv'' @ [CHR 0x27]
       @ ''.'' @ [CHR 0x0A]"

definition run :: "stop_entry list \<Rightarrow> datetime \<Rightarrow> input_event list \<Rightarrow> outcome" where
  "run config today evs =
     (case convert_targets today config of
        Inl e \<Rightarrow> \<lparr>raised = Some e, console = [], csv = None\<rparr>
      | Inr stops \<Rightarrow>
          (case main_loop stops stops evs \<lparr>actual_times = Map.empty, stdout = banner\<rparr> of
             (Some e, st) \<Rightarrow> \<lparr>raised = Some e, console = stdout st, csv = None\<rparr>
           | (None, st) \<Rightarrow>
               \<lparr>raised = None, console = stdout st @ saved_message,
                csv = Some (export_csv stops (actual_times st))\<rparr>))"

text \<open>The script as it stands runs on its own schedule.\<close>

definition script :: "datetime \<Rightarrow> input_event list \<Rightarrow> outcome" where
  "script today evs = run bus_stops today evs"

section \<open>Derived notions\<close>

text \<open>
  The text one call of \<open>print_tail_view\<close> writes, as a function of the schedule and the
  arrival record alone.
\<close>

definition view_text :: "bus_stop list \<Rightarrow> (int \<rightharpoonup> datetime) \<Rightarrow> string" where
  "view_text stops at =
     [CHR 0x0A] @ ''--- Bus Trip Status ---'' @ [CHR 0x0A] @ view_header @ [CHR 0x0A]
       @ concat (map (\<lambda>r. format_view_row r @ [CHR 0x0A]) (tail_rows at None stops))
       @ ''-----------------------'' @ [CHR 0x0A, CHR 0x0A]"

text \<open>The value of \<open>prev_actual\<close> when either loop reaches the stop at position \<open>i\<close>.\<close>

definition prev_actual_at :: "(int \<rightharpoonup> datetime) \<Rightarrow> bus_stop list \<Rightarrow> nat \<Rightarrow> datetime option" where
  "prev_actual_at at stops i = foldl (next_prev at) None (take i stops)"

text \<open>
  The specification's travel segment: among the stops with a smaller sequence number
  that have a recorded arrival, the one with the greatest sequence number, if there is
  one. These three definitions follow the specification, not the code.
\<close>

definition visited :: "(int \<rightharpoonup> datetime) \<Rightarrow> bus_stop \<Rightarrow> bool" where
  "visited at s = (at (sequence s) \<noteq> None)"

definition earlier_visited :: "(int \<rightharpoonup> datetime) \<Rightarrow> bus_stop list \<Rightarrow> bus_stop \<Rightarrow> int list" where
  "earlier_visited at stops s =
     map sequence (filter (\<lambda>p. sequence p < sequence s \<and> visited at p) stops)"

definition nearest_earlier_visited :: "(int \<rightharpoonup> datetime) \<Rightarrow> bus_stop list \<Rightarrow> bus_stop \<Rightarrow> datetime option" where
  "nearest_earlier_visited at stops s =
     (if earlier_visited at stops s = [] then None
      else at (Max (set (earlier_visited at stops s))))"

text \<open>
  Data for the examples: the times of day of 3 November 2026, a schedule of three stops
  as it is configured, and the same schedule with its target times on that day.
\<close>

definition clock :: "int \<Rightarrow> int \<Rightarrow> int \<Rightarrow> int \<Rightarrow> datetime" where
  "clock h m s us =
     \<lparr>year = 2026, month = 11, day = 3, hour = h, minute = m, second = s, microsecond = us\<rparr>"

definition abc_config :: "stop_entry list" where
  "abc_config =
     [\<lparr>sequence = 1, time = ''09:43'', stop = ''A''\<rparr>,
      \<lparr>sequence = 2, time = ''09:45'', stop = ''B''\<rparr>,
      \<lparr>sequence = 3, time = ''09:47'', stop = ''C''\<rparr>]"

definition abc_stops :: "bus_stop list" where
  "abc_stops =
     [\<lparr>sequence = 1, time = ''09:43'', stop = ''A'', target_time = clock 9 43 0 0\<rparr>,
      \<lparr>sequence = 2, time = ''09:45'', stop = ''B'', target_time = clock 9 45 0 0\<rparr>,
      \<lparr>sequence = 3, time = ''09:47'', stop = ''C'', target_time = clock 9 47 0 0\<rparr>]"

section \<open>Whole seconds of a delta\<close>

lemma int_total_seconds_trunc: "int_total_seconds td = sgn td * (\<bar>td\<bar> div 1000000)"
  by (simp add: int_total_seconds_def sgn_if)

lemma int_total_seconds_nonneg: "0 \<le> int_total_seconds td \<longleftrightarrow> - 1000000 < td"
proof (cases "0 \<le> td")
  case True
  then show ?thesis by (simp add: int_total_seconds_def pos_imp_zdiv_nonneg_iff)
next
  case False
  have "0 < (- td) div 1000000 \<longleftrightarrow> 1000000 \<le> - td"
    by (simp add: pos_imp_zdiv_pos_iff)
  with False show ?thesis by (simp add: int_total_seconds_def) linarith
qed

lemma int_total_seconds_pos: "0 < int_total_seconds td \<longleftrightarrow> 1000000 \<le> td"
proof (cases "0 \<le> td")
  case True
  then show ?thesis by (simp add: int_total_seconds_def pos_imp_zdiv_pos_iff)
next
  case False
  then have "0 \<le> (- td) div 1000000"
    by (simp add: pos_imp_zdiv_nonneg_iff)
  with False show ?thesis by (simp add: int_total_seconds_def)
qed

lemma int_total_seconds_neg: "int_total_seconds td < 0 \<longleftrightarrow> td \<le> - 1000000"
  using int_total_seconds_nonneg [of td] by linarith

lemma int_total_seconds_zero: "int_total_seconds td = 0 \<longleftrightarrow> - 1000000 < td \<and> td < 1000000"
  using int_total_seconds_nonneg [of td] int_total_seconds_pos [of td] by linarith

section \<open>The deviation of a recorded arrival\<close>

text \<open>
  C1, as stated, asks for the sign of \<open>actual - scheduled\<close>. \<open>format_deviation\<close> takes the
  sign after the cut to whole seconds: an arrival half a second before the target has a
  negative delta and the sign \<open>+\<close>.
\<close>

theorem format_deviation_sign_counterexample:
  "dt_sub (clock 9 42 59 500000) (clock 9 43 0 0) < 0 \<and>
   fst (format_deviation (clock 9 42 59 500000) (clock 9 43 0 0)) = ''+''"
  by (simp add: clock_def format_deviation_def int_total_seconds_def dt_sub_def
        to_microseconds_def toordinal_def)

text \<open>
  C1 (amended): for every recorded arrival and target whose delta \<open>actual - scheduled\<close>
  is shorter than \<open>2 ^ 34\<close> seconds, \<open>format_deviation\<close> returns as \<open>total_seconds\<close> that
  delta cut towards zero to whole seconds; the sign is \<open>+\<close> exactly when these whole
  seconds are not negative, which is when the delta is more than minus one second, and
  \<open>-\<close> exactly when they are negative; and \<open>minutes * 60 + seconds\<close> is the absolute
  value of \<open>total_seconds\<close>, with the seconds between 0 and 59.
\<close>

theorem format_deviation_sign_and_decomposition:
  assumes "delta_in_float_range (dt_sub actual_dt target_dt)"
  shows "case format_deviation actual_dt target_dt of
     (sign, minutes, seconds, total_seconds) \<Rightarrow>
       total_seconds = sgn (dt_sub actual_dt target_dt) * (\<bar>dt_sub actual_dt target_dt\<bar> div 1000000) \<and>
       (sign = ''+'' \<longleftrightarrow> 0 \<le> total_seconds) \<and>
       (sign = ''-'' \<longleftrightarrow> total_seconds < 0) \<and>
       (sign = ''+'' \<longleftrightarrow> - 1000000 < dt_sub actual_dt target_dt) \<and>
       minutes * 60 + seconds = \<bar>total_seconds\<bar> \<and> 0 \<le> minutes \<and> 0 \<le> seconds \<and> seconds < 60"
  using int_total_seconds_nonneg [of "dt_sub actual_dt target_dt"]
  by (auto simp add: format_deviation_def Let_def int_total_seconds_trunc [symmetric]
        pos_imp_zdiv_nonneg_iff)

theorem format_deviation_sign_and_decomposition_witness:
  "delta_in_float_range (dt_sub (clock 9 41 29 250000) (clock 9 43 0 0)) \<and>
   dt_sub (clock 9 41 29 250000) (clock 9 43 0 0) = - 90750000 \<and>
   format_deviation (clock 9 41 29 250000) (clock 9 43 0 0) = (''-'', 1, 30, - 90)"
  using format_deviation_sign_and_decomposition [of "clock 9 41 29 250000" "clock 9 43 0 0"]
  by (simp add: clock_def delta_in_float_range_def format_deviation_def int_total_seconds_def
        dt_sub_def to_microseconds_def toordinal_def)

section \<open>The text and the label of a deviation\<close>

lemma colors_distinct: "RED \<noteq> GREEN" "RED \<noteq> YELLOW" "GREEN \<noteq> YELLOW"
  by (simp_all add: RED_def GREEN_def YELLOW_def)

lemma str_int_0: "str_int 0 = ''0''"
  by (simp add: str_int_def str_nat.simps digit_char_def)

lemma format_deviation_total:
  "snd (snd (snd (format_deviation actual_dt target_dt))) = int_total_seconds (dt_sub actual_dt target_dt)"
  by (simp add: format_deviation_def Let_def)

lemma format_deviation_zero:
  "dt_sub actual_dt target_dt = 0 \<Longrightarrow> format_deviation actual_dt target_dt = (''+'', 0, 0, 0)"
  by (simp add: format_deviation_def Let_def int_total_seconds_def)

lemma color_for_deviation_iff:
  "color_for_deviation t = RED \<longleftrightarrow> 0 < t"
  "color_for_deviation t = GREEN \<longleftrightarrow> t < 0"
  "color_for_deviation t = YELLOW \<longleftrightarrow> t = 0"
  using colors_distinct by (auto simp add: color_for_deviation_def)

text \<open>
  C3, as stated, gives the text \<open>0m 0s\<close> to an arrival at the scheduled time. The sign is
  \<open>+\<close> for every delta that is not negative, zero included, so the text is \<open>+0m 0s\<close>.
\<close>

theorem on_time_text_counterexample:
  "dt_sub (clock 9 43 0 0) (clock 9 43 0 0) = 0 \<and>
   deviation_text (format_deviation (clock 9 43 0 0) (clock 9 43 0 0)) \<noteq> ''0m 0s''"
  by (simp add: format_deviation_def int_total_seconds_def dt_sub_def deviation_text_def str_int_0)

text \<open>
  C3 (amended): for an arrival recorded exactly at the scheduled time the deviation text
  is \<open>+0m 0s\<close> and the colour is the one of on time (yellow). In general the colour is
  the one of late (red) exactly when the whole seconds of the delta are positive, which
  is a delta of one second or more, the one of early (green) exactly when they are
  negative, a delta of minus one second or less, and the one of on time exactly when they
  are zero.
\<close>

theorem on_time_text_and_labels:
  "(dt_sub actual_dt target_dt = 0 \<longrightarrow>
      deviation_text (format_deviation actual_dt target_dt) = ''+0m 0s'' \<and>
      color_for_deviation (snd (snd (snd (format_deviation actual_dt target_dt)))) = YELLOW) \<and>
   (color_for_deviation (snd (snd (snd (format_deviation actual_dt target_dt)))) = RED
      \<longleftrightarrow> 1000000 \<le> dt_sub actual_dt target_dt) \<and>
   (color_for_deviation (snd (snd (snd (format_deviation actual_dt target_dt)))) = GREEN
      \<longleftrightarrow> dt_sub actual_dt target_dt \<le> - 1000000) \<and>
   (color_for_deviation total_seconds = RED \<longleftrightarrow> 0 < total_seconds) \<and>
   (color_for_deviation total_seconds = GREEN \<longleftrightarrow> total_seconds < 0) \<and>
   (color_for_deviation total_seconds = YELLOW \<longleftrightarrow> total_seconds = 0)"
  by (simp add: format_deviation_total color_for_deviation_iff format_deviation_zero
        deviation_text_def str_int_0 int_total_seconds_pos int_total_seconds_neg
        int_total_seconds_zero)

theorem on_time_text_and_labels_witness:
  "dt_sub (clock 9 43 0 0) (clock 9 43 0 0) = 0 \<and>
   deviation_text (format_deviation (clock 9 43 0 0) (clock 9 43 0 0)) = ''+0m 0s'' \<and>
   color_for_deviation (snd (snd (snd (format_deviation (clock 9 43 0 0) (clock 9 43 0 0))))) = YELLOW"
  using on_time_text_and_labels [of "clock 9 43 0 0" "clock 9 43 0 0" 0]
  by (simp add: dt_sub_def)

section \<open>What a view writes and what it leaves alone\<close>

lemma write_out_simps [simp]:
  "actual_times (write_out s st) = actual_times st"
  "stdout (write_out s st) = stdout st @ s"
  by (simp_all add: write_out_def)

lemma print_simps [simp]:
  "actual_times (print s st) = actual_times st"
  "stdout (print s st) = stdout st @ s @ [CHR 0x0A]"
  by (simp_all add: print_def)

lemma tail_loop_actual_times [simp]: "actual_times (tail_loop ss prev st) = actual_times st"
  by (induction ss arbitrary: prev st) simp_all

lemma tail_loop_stdout:
  "stdout (tail_loop ss prev st) =
     stdout st @ concat (map (\<lambda>r. format_view_row r @ [CHR 0x0A]) (tail_rows (actual_times st) prev ss))"
  by (induction ss arbitrary: prev st) simp_all

lemma print_tail_view_actual_times [simp]:
  "actual_times (print_tail_view stops st) = actual_times st"
  by (simp add: print_tail_view_def)

lemma print_tail_view_stdout:
  "stdout (print_tail_view stops st) = stdout st @ view_text stops (actual_times st)"
  by (simp add: print_tail_view_def tail_loop_stdout view_text_def)

text \<open>
  C6: a call of \<open>print_tail_view\<close> leaves the arrival record as it was and appends to the
  console a text that depends on the schedule and the record alone, so a second call
  right after the first computes the same rows and appends the same text again.
\<close>

theorem print_tail_view_idempotent:
  "actual_times (print_tail_view stops st) = actual_times st \<and>
   tail_rows (actual_times (print_tail_view stops st)) None stops
     = tail_rows (actual_times st) None stops \<and>
   stdout (print_tail_view stops st) = stdout st @ view_text stops (actual_times st) \<and>
   stdout (print_tail_view stops (print_tail_view stops st)) =
     stdout (print_tail_view stops st) @ view_text stops (actual_times st)"
  by (simp add: print_tail_view_stdout)

section \<open>The rows of the view and of the export\<close>

lemma tail_rows_length [simp]: "length (tail_rows at prev ss) = length ss"
  by (induction ss arbitrary: prev) simp_all

lemma export_rows_length [simp]: "length (export_rows at prev ss) = length ss"
  by (induction ss arbitrary: prev) simp_all

lemma tail_rows_nth:
  "i < length ss \<Longrightarrow>
   tail_rows at prev ss ! i = tail_row at (foldl (next_prev at) prev (take i ss)) (ss ! i)"
proof (induction ss arbitrary: prev i)
  case Nil
  then show ?case by simp
next
  case (Cons s ss)
  then show ?case by (cases i) simp_all
qed

lemma export_rows_nth:
  "i < length ss \<Longrightarrow>
   export_rows at prev ss ! i = export_row at (foldl (next_prev at) prev (take i ss)) (ss ! i)"
proof (induction ss arbitrary: prev i)
  case Nil
  then show ?case by simp
next
  case (Cons s ss)
  then show ?case by (cases i) simp_all
qed

lemma travel_text_not_placeholder: "travel_text t \<noteq> ''-''" "travel_text t \<noteq> []"
  by (simp_all add: travel_text_def)

lemma dt_sub_same_day:
  "year a = year b \<Longrightarrow> month a = month b \<Longrightarrow> day a = day b \<Longrightarrow>
   dt_sub a b =
     ((hour a - hour b) * 3600 + (minute a - minute b) * 60 + (second a - second b)) * 1000000
       + (microsecond a - microsecond b)"
  by (simp add: dt_sub_def to_microseconds_def toordinal_def algebra_simps)

lemmas eval_text = deviation_text_def travel_text_def str_int_def str_nat.simps digit_char_def

lemmas eval_rows = tail_row_def export_row_def next_prev_def format_deviation_def Let_def
  travel_sec_def int_total_seconds_def dt_sub_same_day color_for_deviation_def

lemmas eval_strptime = add_target_time_def strptime_HM_def parse_hour_def parse_minute_def
  is_digit_def digit_val_def

lemma abc_converted: "convert_targets (clock h m s us) abc_config = Inr abc_stops"
  by (simp add: abc_config_def abc_stops_def clock_def eval_strptime)

text \<open>
  C5: for every arrival record the export hands the writer one data row for each stop
  of the schedule, after the header row, whatever stops have a record; each data row
  has seven fields, and for a stop without a record the fields of the actual time, the
  deviation, the deviation in seconds and the travel time are empty strings.
\<close>

theorem export_one_row_per_stop:
  "length (export_rows at None stops) = length stops \<and>
   length (export_csv stops at) = Suc (length stops) \<and>
   (i < length stops \<longrightarrow>
      length (export_rows at None stops ! i) = 7 \<and>
      (at (sequence (stops ! i)) = None \<longrightarrow>
         drop 3 (export_rows at None stops ! i) = [S [], S [], S [], S []]))"
  by (simp add: export_csv_def export_rows_nth export_row_def)

theorem export_one_row_per_stop_witness:
  "length (export_rows [1 \<mapsto> clock 9 44 30 250000] None abc_stops) = 3 \<and>
   drop 3 (export_rows [1 \<mapsto> clock 9 44 30 250000] None abc_stops ! 2) = [S [], S [], S [], S []]"
  using export_one_row_per_stop [of "[1 \<mapsto> clock 9 44 30 250000]" abc_stops 2]
  by (simp add: abc_stops_def)

text \<open>
  C10: for every arrival record and every stop, the row of the view and the row of the
  export agree on the sequence number, the name and the target time; for a stop with a
  record both hold the same deviation text (the view between the colour of
  \<open>color_for_deviation\<close> and the reset code), the export's seconds are the ones that text
  and colour come from, and both derive the travel time from the same previous arrival,
  so the travel texts are equal; the actual time is the time of day in the view and
  the full date and time in the export; and where a value is missing the view holds
  \<open>-\<close> and the export the empty string.
\<close>

theorem view_and_export_same_values:
  assumes "i < length stops"
  shows "case (tail_rows at None stops ! i, export_rows at None stops ! i) of
     (v, e) \<Rightarrow>
       e ! 0 = I (seq v) \<and> e ! 1 = S (name v) \<and> e ! 2 = S (target_str v) \<and>
       e ! 6 = S (if travel_str v = ''-'' then [] else travel_str v) \<and>
       (case at (sequence (stops ! i)) of
          None \<Rightarrow>
            actual_str v = ''-'' \<and> e ! 3 = S [] \<and> deviation_colored v = ''-'' \<and> e ! 4 = S [] \<and>
            e ! 5 = S [] \<and> travel_str v = ''-'' \<and> e ! 6 = S []
        | Some actual_dt \<Rightarrow>
            actual_str v = strftime_HMS actual_dt \<and> e ! 3 = S (strftime_YmdHMS actual_dt) \<and>
            e ! 4 = S (deviation_text (format_deviation actual_dt (target_time (stops ! i)))) \<and>
            e ! 5 = I (snd (snd (snd (format_deviation actual_dt (target_time (stops ! i)))))) \<and>
            deviation_colored v =
              color_for_deviation (snd (snd (snd (format_deviation actual_dt (target_time (stops ! i))))))
                @ deviation_text (format_deviation actual_dt (target_time (stops ! i))) @ RESET \<and>
            (case prev_actual_at at stops i of
               None \<Rightarrow> travel_str v = ''-'' \<and> e ! 6 = S []
             | Some p \<Rightarrow>
                 travel_str v = travel_text (travel_sec actual_dt p) \<and>
                 e ! 6 = S (travel_text (travel_sec actual_dt p))))"
  using assms
  by (simp add: tail_rows_nth export_rows_nth tail_row_def export_row_def prev_actual_at_def
        travel_text_not_placeholder split: option.split prod.split)

theorem view_and_export_same_values_witness:
  "(case (tail_rows [1 \<mapsto> clock 9 44 30 250000, 3 \<mapsto> clock 9 46 59 500000] None abc_stops ! 2,
          export_rows [1 \<mapsto> clock 9 44 30 250000, 3 \<mapsto> clock 9 46 59 500000] None abc_stops ! 2) of
     (v, e) \<Rightarrow>
       deviation_colored v = YELLOW @ ''+0m 0s'' @ RESET \<and> e ! 4 = S ''+0m 0s'' \<and> e ! 5 = I 0 \<and>
       travel_str v = ''2m 29s'' \<and> e ! 6 = S ''2m 29s'' \<and>
       actual_str v = ''09:46:59'' \<and> e ! 3 = S ''2026-11-03 09:46:59'')"
  using view_and_export_same_values
    [of 2 abc_stops "[1 \<mapsto> clock 9 44 30 250000, 3 \<mapsto> clock 9 46 59 500000]"]
  by (simp add: abc_stops_def clock_def prev_actual_at_def eval_rows eval_text
        strftime_HMS_def strftime_HM_def strftime_YmdHMS_def zero_pad_def)

section \<open>The travel segment\<close>

lemma next_prev_visited:
  "next_prev at prev s = (if visited at s then at (sequence s) else prev)"
  by (auto simp add: next_prev_def visited_def split: option.splits)

lemma foldl_next_prev:
  "foldl (next_prev at) prev xs =
     (if filter (visited at) xs = [] then prev else at (sequence (last (filter (visited at) xs))))"
  by (induction xs rule: rev_induct) (simp_all add: next_prev_visited)

lemma filter_less_nth_sorted:
  fixes f :: "'a \<Rightarrow> int"
  assumes "sorted_wrt (<) (map f xs)" and "i < length xs"
  shows "filter (\<lambda>p. f p < f (xs ! i)) xs = take i xs"
proof -
  have split: "xs = take i xs @ xs ! i # drop (Suc i) xs"
    using assms(2) by (simp add: id_take_nth_drop)
  have "sorted_wrt (<) (map f (take i xs) @ f (xs ! i) # map f (drop (Suc i) xs))"
    using assms(1) by (subst (asm) split) simp
  then have before: "\<forall>p \<in> set (take i xs). f p < f (xs ! i)"
    and after: "\<forall>p \<in> set (drop (Suc i) xs). f (xs ! i) < f p"
    by (auto simp add: sorted_wrt_append)
  have "filter (\<lambda>p. f p < f (xs ! i)) (take i xs @ xs ! i # drop (Suc i) xs) = take i xs"
    using before after by (auto simp add: filter_empty_conv intro: filter_True)
  then show ?thesis using split by simp
qed

lemma Max_sorted_last:
  fixes ys :: "int list"
  shows "sorted_wrt (<) ys \<Longrightarrow> ys \<noteq> [] \<Longrightarrow> Max (set ys) = last ys"
proof (induction ys rule: rev_induct)
  case Nil
  then show ?case by simp
next
  case (snoc y ys)
  then have "\<forall>x \<in> set ys. x < y" by (simp add: sorted_wrt_append)
  then have "Max (set (ys @ [y])) = y"
    by (intro Max_eqI) auto
  then show ?case by simp
qed

lemma prev_is_nearest_earlier_visited:
  assumes "sorted_wrt (<) (map sequence stops)" and "i < length stops"
  shows "prev_actual_at at stops i = nearest_earlier_visited at stops (stops ! i)"
proof -
  let ?vs = "filter (visited at) (take i stops)"
  have "filter (\<lambda>p. sequence p < sequence (stops ! i) \<and> visited at p) stops
          = filter (visited at) (filter (\<lambda>p. sequence p < sequence (stops ! i)) stops)"
    by (simp add: conj_commute)
  also have "\<dots> = ?vs"
    using filter_less_nth_sorted [OF assms] by simp
  finally have ev: "earlier_visited at stops (stops ! i) = map sequence ?vs"
    by (simp add: earlier_visited_def)
  have "sorted_wrt (<) (map sequence ?vs)"
    using assms(1) by (simp add: sorted_wrt_map sorted_wrt_take sorted_wrt_filter)
  then have "?vs \<noteq> [] \<Longrightarrow> Max (set (map sequence ?vs)) = sequence (last ?vs)"
    using Max_sorted_last [of "map sequence ?vs"] by (simp add: last_map)
  then show ?thesis
    by (simp add: prev_actual_at_def foldl_next_prev nearest_earlier_visited_def ev)
qed

text \<open>
  C2: on a schedule in the order of its sequence numbers, the travel time the view shows
  for a stop is the placeholder \<open>-\<close> when the stop has no record or no stop before it has
  one, so also for the first stop ever visited, and the placeholder is not the text of
  zero; for any other visited stop it is the time from the arrival at the nearest
  earlier visited stop, the one with the greatest smaller sequence number among the
  visited ones, whatever unvisited stops lie between.
\<close>

theorem travel_segment_nearest_earlier:
  assumes "sorted_wrt (<) (map sequence stops)" and "i < length stops"
  shows "travel_str (tail_rows at None stops ! i) =
           (case at (sequence (stops ! i)) of
              None \<Rightarrow> ''-''
            | Some actual_dt \<Rightarrow>
                (case nearest_earlier_visited at stops (stops ! i) of
                   None \<Rightarrow> ''-''
                 | Some p \<Rightarrow> travel_text (travel_sec actual_dt p)))
         \<and> travel_text 0 \<noteq> ''-''"
  using assms prev_is_nearest_earlier_visited [OF assms, of at]
  by (simp add: tail_rows_nth tail_row_def prev_actual_at_def travel_text_not_placeholder)

theorem travel_segment_nearest_earlier_witness:
  "sorted_wrt (<) (map sequence abc_stops) \<and> 2 < length abc_stops \<and>
   nearest_earlier_visited [1 \<mapsto> clock 9 44 30 250000, 3 \<mapsto> clock 9 46 59 500000] abc_stops (abc_stops ! 2)
     = Some (clock 9 44 30 250000) \<and>
   map travel_str (tail_rows [1 \<mapsto> clock 9 44 30 250000, 3 \<mapsto> clock 9 46 59 500000] None abc_stops)
     = [''-'', ''-'', ''2m 29s'']"
  using travel_segment_nearest_earlier
    [of abc_stops 2 "[1 \<mapsto> clock 9 44 30 250000, 3 \<mapsto> clock 9 46 59 500000]"]
  by (simp add: abc_stops_def clock_def nearest_earlier_visited_def earlier_visited_def visited_def
        eval_rows eval_text)

section \<open>Logging an arrival\<close>

lemma log_arrival_actual_times [simp]:
  "actual_times (log_arrival stops s now st) = (actual_times st)(sequence s \<mapsto> now)"
  by (simp add: log_arrival_def)

section \<open>The colour of a deviation in the view\<close>

text \<open>
  C9, as stated, has the deviation in plain text where the output is not interactive.
  \<open>print_tail_view\<close> reads nothing of its environment: the deviation of a visited stop
  is written between an escape sequence for the colour and the one for the reset
  wherever the output goes.
\<close>

theorem deviation_marker_counterexample:
  "deviation_colored (tail_rows [1 \<mapsto> clock 9 44 30 0] None abc_stops ! 0)
     = [CHR 0x1B] @ ''[91m+1m 30s'' @ [CHR 0x1B] @ ''[0m'' \<and>
   CHR 0x1B \<in> set (deviation_colored (tail_rows [1 \<mapsto> clock 9 44 30 0] None abc_stops ! 0))"
  by (simp add: abc_stops_def clock_def eval_rows eval_text RED_def RESET_def)

lemma tail_row_deviation_visited:
  "at (sequence s) = Some actual_dt \<Longrightarrow>
   deviation_colored (tail_row at prev s) =
     color_for_deviation (snd (snd (snd (format_deviation actual_dt (target_time s)))))
       @ deviation_text (format_deviation actual_dt (target_time s)) @ RESET"
  by (simp add: tail_row_def split: prod.split)

lemma color_of_delta:
  "color_for_deviation (int_total_seconds d) =
     (if 1000000 \<le> d then RED else if d \<le> - 1000000 then GREEN else YELLOW)"
  by (simp add: color_for_deviation_def int_total_seconds_pos int_total_seconds_neg)

text \<open>
  C9 (amended): in the view the deviation of every visited stop is its text between the
  colour code of its category and the reset code, in every environment: red for a
  delta of one second or more (late), green for minus one second or less (early), yellow
  otherwise (on time); the three codes differ, and the cell always holds the escape
  character.
\<close>

theorem deviation_always_coloured:
  assumes "i < length stops" and "at (sequence (stops ! i)) = Some actual_dt"
  shows "deviation_colored (tail_rows at None stops ! i) =
           color_for_deviation (snd (snd (snd (format_deviation actual_dt (target_time (stops ! i))))))
             @ deviation_text (format_deviation actual_dt (target_time (stops ! i))) @ RESET
       \<and> color_for_deviation (snd (snd (snd (format_deviation actual_dt (target_time (stops ! i))))))
           = (if 1000000 \<le> dt_sub actual_dt (target_time (stops ! i)) then RED
              else if dt_sub actual_dt (target_time (stops ! i)) \<le> - 1000000 then GREEN
              else YELLOW)
       \<and> RED \<noteq> GREEN \<and> RED \<noteq> YELLOW \<and> GREEN \<noteq> YELLOW
       \<and> CHR 0x1B \<in> set (deviation_colored (tail_rows at None stops ! i))"
  using assms colors_distinct
  by (simp add: tail_rows_nth tail_row_deviation_visited format_deviation_total color_of_delta
        RESET_def)

theorem deviation_always_coloured_witness:
  "deviation_colored (tail_rows [1 \<mapsto> clock 9 44 30 0, 2 \<mapsto> clock 9 44 10 0] None abc_stops ! 1)
     = GREEN @ ''-0m 50s'' @ RESET"
  using deviation_always_coloured [of 1 abc_stops "[1 \<mapsto> clock 9 44 30 0, 2 \<mapsto> clock 9 44 10 0]" "clock 9 44 10 0"]
  by (simp add: abc_stops_def clock_def eval_rows eval_text)

section \<open>The arrival record during the main loop\<close>

lemma loop_trace_length:
  "length (loop_trace stops ss evs st) = Suc (min (length ss) (length (takeWhile is_Enter evs)))"
  by (induction stops ss evs st rule: loop_trace.induct) simp_all

lemma loop_trace_not_Nil [simp]: "loop_trace stops ss evs st \<noteq> []"
  by (induction stops ss evs st rule: loop_trace.induct) simp_all

lemma loop_trace_0 [simp]: "loop_trace stops ss evs st ! 0 = st"
  by (induction stops ss evs st rule: loop_trace.induct) simp_all

lemma loop_trace_step:
  "Suc k < length (loop_trace stops ss evs st) \<Longrightarrow>
   \<exists>now. evs ! k = Enter now \<and>
     actual_times (loop_trace stops ss evs st ! Suc k) =
       (actual_times (loop_trace stops ss evs st ! k))(sequence (ss ! k) \<mapsto> now)"
proof (induction stops ss evs st arbitrary: k rule: loop_trace.induct)
  case (4 stops s ss now evs st)
  show ?case
  proof (cases k)
    case 0
    then show ?thesis by simp
  next
    case (Suc k')
    with "4.prems" have "Suc k' < length (loop_trace stops ss evs (log_arrival stops s now (write_out (prompt s) st)))"
      by simp
    from "4.IH" [OF this] Suc show ?thesis by simp
  qed
qed simp_all

lemma loop_trace_dom:
  "k < length (loop_trace stops ss evs st) \<Longrightarrow>
   dom (actual_times (loop_trace stops ss evs st ! k)) =
     dom (actual_times st) \<union> sequence ` set (take k ss)"
proof (induction k)
  case 0
  then show ?case by simp
next
  case (Suc k)
  then have k: "k < length ss"
    by (simp add: loop_trace_length)
  from loop_trace_step [OF Suc.prems] obtain now where
    "actual_times (loop_trace stops ss evs st ! Suc k) =
       (actual_times (loop_trace stops ss evs st ! k))(sequence (ss ! k) \<mapsto> now)"
    by blast
  then have "dom (actual_times (loop_trace stops ss evs st ! Suc k)) =
      insert (sequence (ss ! k)) (dom (actual_times (loop_trace stops ss evs st ! k)))"
    by simp
  also have "dom (actual_times (loop_trace stops ss evs st ! k)) =
      dom (actual_times st) \<union> sequence ` set (take k ss)"
    using Suc by simp
  finally show ?case
    using k by (auto simp add: take_Suc_conv_app_nth)
qed

lemma loop_trace_unvisited_before:
  assumes "distinct (map sequence ss)"
    and "dom (actual_times st) \<inter> sequence ` set ss = {}"
    and "Suc k < length (loop_trace stops ss evs st)"
  shows "actual_times (loop_trace stops ss evs st ! k) (sequence (ss ! k)) = None"
proof -
  from assms(3) have k: "k < length ss"
    by (simp add: loop_trace_length)
  from assms(3) have "k < length (loop_trace stops ss evs st)" by simp
  then have d: "dom (actual_times (loop_trace stops ss evs st ! k)) =
      dom (actual_times st) \<union> sequence ` set (take k ss)"
    by (rule loop_trace_dom)
  have "sequence (ss ! k) \<notin> dom (actual_times st)"
    using assms(2) k by auto
  moreover have "sequence (ss ! k) \<notin> sequence ` set (take k ss)"
  proof
    assume "sequence (ss ! k) \<in> sequence ` set (take k ss)"
    then obtain j where "j < k" and "sequence (ss ! j) = sequence (ss ! k)"
      using k by (auto simp add: in_set_conv_nth)
    with assms(1) k show False
      by (simp add: distinct_conv_nth)
  qed
  ultimately have "sequence (ss ! k) \<notin> dom (actual_times (loop_trace stops ss evs st ! k))"
    using d by simp
  then show ?thesis by (simp add: domIff)
qed

lemma loop_trace_grows:
  assumes "distinct (map sequence ss)"
    and "dom (actual_times st) \<inter> sequence ` set ss = {}"
  shows "i \<le> j \<Longrightarrow> j < length (loop_trace stops ss evs st) \<Longrightarrow>
         actual_times (loop_trace stops ss evs st ! i) \<subseteq>\<^sub>m actual_times (loop_trace stops ss evs st ! j)"
proof (induction j)
  case 0
  then show ?case by simp
next
  case (Suc j)
  show ?case
  proof (cases "i = Suc j")
    case True
    then show ?thesis by simp
  next
    case False
    with Suc have le: "actual_times (loop_trace stops ss evs st ! i) \<subseteq>\<^sub>m actual_times (loop_trace stops ss evs st ! j)"
      by simp
    from loop_trace_step [OF Suc.prems(2)] obtain now where
      step: "actual_times (loop_trace stops ss evs st ! Suc j) =
       (actual_times (loop_trace stops ss evs st ! j))(sequence (ss ! j) \<mapsto> now)"
      by blast
    have "actual_times (loop_trace stops ss evs st ! j) (sequence (ss ! j)) = None"
      using assms Suc.prems(2) by (rule loop_trace_unvisited_before)
    then have "actual_times (loop_trace stops ss evs st ! j) \<subseteq>\<^sub>m actual_times (loop_trace stops ss evs st ! Suc j)"
      unfolding step by (auto simp add: map_le_def)
    with le show ?thesis by (rule map_le_trans)
  qed
qed

lemma main_loop_last_trace:
  "actual_times (snd (main_loop stops ss evs st)) = actual_times (last (loop_trace stops ss evs st))"
  by (induction stops ss evs st rule: main_loop.induct) simp_all

lemma main_loop_raised:
  "fst (main_loop stops ss evs st) =
     (if length ss \<le> length (takeWhile is_Enter evs) then None
      else if takeWhile is_Enter evs = evs then Some EOFError
      else Some KeyboardInterrupt)"
  by (induction stops ss evs st rule: main_loop.induct) simp_all

text \<open>
  C8: in a run over a schedule whose sequence numbers are distinct, starting with the
  empty record, the stops that have a record at the head of iteration \<open>j\<close> are the first
  \<open>j\<close> stops; every earlier record is contained in every later one, so no time is
  overwritten or removed and no stop goes back to unvisited; and the iteration of a stop
  finds that stop without a record and changes the record at its sequence number
  alone, to the time read after its own prompt. The record the loop ends with is the
  last of these.
\<close>

theorem arrival_record_only_grows:
  assumes "distinct (map sequence stops)"
    and "actual_times st = Map.empty"
    and "j < length (loop_trace stops stops evs st)"
  shows "dom (actual_times (loop_trace stops stops evs st ! j)) = sequence ` set (take j stops)
       \<and> (\<forall>i\<le>j. actual_times (loop_trace stops stops evs st ! i)
                   \<subseteq>\<^sub>m actual_times (loop_trace stops stops evs st ! j))
       \<and> (Suc j < length (loop_trace stops stops evs st) \<longrightarrow>
            actual_times (loop_trace stops stops evs st ! j) (sequence (stops ! j)) = None \<and>
            (\<exists>now. evs ! j = Enter now \<and>
               actual_times (loop_trace stops stops evs st ! Suc j) =
                 (actual_times (loop_trace stops stops evs st ! j))(sequence (stops ! j) \<mapsto> now)))
       \<and> actual_times (snd (main_loop stops stops evs st))
           = actual_times (last (loop_trace stops stops evs st))"
proof -
  have disjoint: "dom (actual_times st) \<inter> sequence ` set stops = {}"
    using assms(2) by simp
  have "dom (actual_times (loop_trace stops stops evs st ! j)) = sequence ` set (take j stops)"
    using loop_trace_dom [OF assms(3)] assms(2) by simp
  moreover have "\<forall>i\<le>j. actual_times (loop_trace stops stops evs st ! i)
                   \<subseteq>\<^sub>m actual_times (loop_trace stops stops evs st ! j)"
    using loop_trace_grows [OF assms(1) disjoint _ assms(3)] by blast
  moreover have "Suc j < length (loop_trace stops stops evs st) \<longrightarrow>
            actual_times (loop_trace stops stops evs st ! j) (sequence (stops ! j)) = None \<and>
            (\<exists>now. evs ! j = Enter now \<and>
               actual_times (loop_trace stops stops evs st ! Suc j) =
                 (actual_times (loop_trace stops stops evs st ! j))(sequence (stops ! j) \<mapsto> now))"
    using loop_trace_unvisited_before [OF assms(1) disjoint] loop_trace_step by blast
  ultimately show ?thesis
    by (simp add: main_loop_last_trace)
qed

theorem arrival_record_only_grows_witness:
  "distinct (map sequence abc_stops) \<and>
   1 < length (loop_trace abc_stops abc_stops [Enter (clock 9 44 30 0), Enter (clock 9 47 0 0), CtrlC]
                \<lparr>actual_times = Map.empty, stdout = banner\<rparr>) \<and>
   dom (actual_times (loop_trace abc_stops abc_stops [Enter (clock 9 44 30 0), Enter (clock 9 47 0 0), CtrlC]
                \<lparr>actual_times = Map.empty, stdout = banner\<rparr> ! 1)) = {1} \<and>
   actual_times (loop_trace abc_stops abc_stops [Enter (clock 9 44 30 0), Enter (clock 9 47 0 0), CtrlC]
                \<lparr>actual_times = Map.empty, stdout = banner\<rparr> ! 1) 2 = None \<and>
   actual_times (loop_trace abc_stops abc_stops [Enter (clock 9 44 30 0), Enter (clock 9 47 0 0), CtrlC]
                \<lparr>actual_times = Map.empty, stdout = banner\<rparr> ! 2)
     = [1 \<mapsto> clock 9 44 30 0, 2 \<mapsto> clock 9 47 0 0]"
  using arrival_record_only_grows
    [of abc_stops "\<lparr>actual_times = Map.empty, stdout = banner\<rparr>" 1
        "[Enter (clock 9 44 30 0), Enter (clock 9 47 0 0), CtrlC]"]
  by (simp add: abc_stops_def)

section \<open>The whole run\<close>

lemma add_target_time_sequence:
  "add_target_time today s = Inr b \<Longrightarrow> sequence b = sequence s"
  by (auto simp add: add_target_time_def split: sum.splits)

lemma convert_targets_sequence:
  "convert_targets today config = Inr stops \<Longrightarrow> map sequence stops = map sequence config"
  by (induction config arbitrary: stops) (auto split: sum.splits dest: add_target_time_sequence)

lemma bus_stops_sequence: "map sequence bus_stops = [1, 2, 3, 4, 5, 6, 7, 8, 9, 10]"
  by (simp add: bus_stops_def)

lemma bus_stops_converted:
  "\<exists>stops. convert_targets today bus_stops = Inr stops \<and> length stops = 10"
  by (simp add: bus_stops_def eval_strptime)

lemma bus_stops_in_order:
  "convert_targets today bus_stops = Inr stops \<Longrightarrow>
   sorted_wrt (<) (map sequence stops) \<and> distinct (map sequence stops)"
  by (simp add: convert_targets_sequence bus_stops_sequence)

lemma run_result:
  "convert_targets today config = Inr stops \<Longrightarrow>
   run config today evs =
     (case fst (main_loop stops stops evs \<lparr>actual_times = Map.empty, stdout = banner\<rparr>) of
        Some e \<Rightarrow>
          \<lparr>raised = Some e,
           console = stdout (snd (main_loop stops stops evs \<lparr>actual_times = Map.empty, stdout = banner\<rparr>)),
           csv = None\<rparr>
      | None \<Rightarrow>
          \<lparr>raised = None,
           console = stdout (snd (main_loop stops stops evs \<lparr>actual_times = Map.empty, stdout = banner\<rparr>))
             @ saved_message,
           csv = Some (export_csv stops
             (actual_times (snd (main_loop stops stops evs \<lparr>actual_times = Map.empty, stdout = banner\<rparr>))))\<rparr>)"
  by (simp add: run_def split: prod.split option.split)

text \<open>
  The script itself, on its schedule of ten stops: with the first stop logged and the
  second prompt interrupted, or the input at its end there, it raises and writes no
  export.
\<close>

lemma script_interrupted_after_first_stop:
  "raised (script today (Enter now # CtrlC # evs)) = Some KeyboardInterrupt \<and>
   csv (script today (Enter now # CtrlC # evs)) = None \<and>
   raised (script today [Enter now]) = Some EOFError \<and>
   csv (script today [Enter now]) = None"
proof -
  obtain stops where converted: "convert_targets today bus_stops = Inr stops"
    and ten: "length stops = 10"
    using bus_stops_converted by blast
  show ?thesis
    unfolding script_def run_result [OF converted]
    by (simp add: main_loop_raised ten)
qed

text \<open>
  C4, as stated, has the export written after an interrupted loop. Nothing in the script
  catches the exception of an interrupted \<open>input\<close>: on three stops, with the first logged
  and the second prompt interrupted, the run ends with \<open>KeyboardInterrupt\<close> and no export.
\<close>

theorem interrupted_run_counterexample:
  "raised (run abc_config (clock 9 40 0 0) [Enter (clock 9 44 30 0), CtrlC]) = Some KeyboardInterrupt \<and>
   csv (run abc_config (clock 9 40 0 0) [Enter (clock 9 44 30 0), CtrlC]) = None"
  by (simp add: run_result [OF abc_converted] main_loop_raised abc_stops_def)

text \<open>
  C4 (amended): if the main loop is interrupted before every stop is processed, by a
  keyboard interrupt or by the end of the input at a prompt, the run ends with that
  exception and writes no export; if every stop is logged, the run raises nothing and
  writes the export of the final record, the header and one row for each stop.
\<close>

theorem interrupted_run_writes_no_export:
  assumes "convert_targets today config = Inr stops"
  shows "(length (takeWhile is_Enter evs) < length stops \<longrightarrow>
            raised (run config today evs)
              = Some (if takeWhile is_Enter evs = evs then EOFError else KeyboardInterrupt) \<and>
            csv (run config today evs) = None) \<and>
         (length stops \<le> length (takeWhile is_Enter evs) \<longrightarrow>
            raised (run config today evs) = None \<and>
            csv (run config today evs)
              = Some (export_csv stops
                  (actual_times (snd (main_loop stops stops evs \<lparr>actual_times = Map.empty, stdout = banner\<rparr>)))) \<and>
            map_option length (csv (run config today evs)) = Some (Suc (length stops)))"
  by (simp add: run_result [OF assms] main_loop_raised export_csv_def)

theorem interrupted_run_writes_no_export_witness:
  "convert_targets (clock 9 40 0 0) abc_config = Inr abc_stops \<and>
   length (takeWhile is_Enter [Enter (clock 9 44 30 0)]) < length abc_stops \<and>
   raised (run abc_config (clock 9 40 0 0) [Enter (clock 9 44 30 0)]) = Some EOFError \<and>
   csv (run abc_config (clock 9 40 0 0) [Enter (clock 9 44 30 0)]) = None"
proof -
  have converted: "convert_targets (clock 9 40 0 0) abc_config = Inr abc_stops"
    by (rule abc_converted)
  show ?thesis
    using interrupted_run_writes_no_export [OF converted, of "[Enter (clock 9 44 30 0)]"]
    by (simp add: converted abc_stops_def)
qed

section \<open>The scenario of two stops\<close>

text \<open>
  C7: on the schedule of stop 1 at 09:43 and stop 2 at 09:45, whatever the day of the
  run, the main loop records the arrival at stop 1 at 09:44:30 and then the arrival at
  stop 2 at 09:47:00. After the first, the view shows for stop 1 the deviation
  \<open>+1m 30s\<close> in the colour of late and the placeholder as travel time; after the second
  it shows for stop 2 the deviation \<open>+2m 0s\<close> and the travel time \<open>2m 30s\<close>, and the
  export the run writes holds the same texts.
\<close>

theorem scenario_two_stops:
  fixes today :: datetime
  defines "a1 \<equiv> today\<lparr>hour := 9, minute := 44, second := 30, microsecond := 0\<rparr>"
      and "a2 \<equiv> today\<lparr>hour := 9, minute := 47, second := 0, microsecond := 0\<rparr>"
      and "s1 \<equiv> \<lparr>sequence = 1, time = ''09:43'', stop = ''A'',
                   target_time = today\<lparr>hour := 9, minute := 43, second := 0, microsecond := 0\<rparr>\<rparr>"
      and "s2 \<equiv> \<lparr>sequence = 2, time = ''09:45'', stop = ''B'',
                   target_time = today\<lparr>hour := 9, minute := 45, second := 0, microsecond := 0\<rparr>\<rparr>"
  shows "convert_targets today
           [\<lparr>sequence = 1, time = ''09:43'', stop = ''A''\<rparr>,
            \<lparr>sequence = 2, time = ''09:45'', stop = ''B''\<rparr>] = Inr [s1, s2]
       \<and> map actual_times (loop_trace [s1, s2] [s1, s2] [Enter a1, Enter a2] st)
           = [actual_times st, (actual_times st)(1 \<mapsto> a1), (actual_times st)(1 \<mapsto> a1, 2 \<mapsto> a2)]
       \<and> format_deviation a1 (target_time s1) = (''+'', 1, 30, 90)
       \<and> color_for_deviation 90 = RED
       \<and> map (\<lambda>r. (deviation_colored r, travel_str r)) (tail_rows [1 \<mapsto> a1] None [s1, s2])
           = [(RED @ ''+1m 30s'' @ RESET, ''-''), (''-'', ''-'')]
       \<and> map (\<lambda>r. (deviation_colored r, travel_str r)) (tail_rows [1 \<mapsto> a1, 2 \<mapsto> a2] None [s1, s2])
           = [(RED @ ''+1m 30s'' @ RESET, ''-''), (RED @ ''+2m 0s'' @ RESET, ''2m 30s'')]
       \<and> map (drop 4) (export_rows [1 \<mapsto> a1, 2 \<mapsto> a2] None [s1, s2])
           = [[S ''+1m 30s'', I 90, S ''''], [S ''+2m 0s'', I 120, S ''2m 30s'']]
       \<and> map_option (map (drop 4))
             (csv (run [\<lparr>sequence = 1, time = ''09:43'', stop = ''A''\<rparr>,
                        \<lparr>sequence = 2, time = ''09:45'', stop = ''B''\<rparr>] today [Enter a1, Enter a2]))
           = Some [drop 4 csv_header, [S ''+1m 30s'', I 90, S ''''], [S ''+2m 0s'', I 120, S ''2m 30s'']]"
proof -
  have converted: "convert_targets today
           [\<lparr>sequence = 1, time = ''09:43'', stop = ''A''\<rparr>,
            \<lparr>sequence = 2, time = ''09:45'', stop = ''B''\<rparr>] = Inr [s1, s2]"
    unfolding s1_def s2_def by (cases today) (simp add: eval_strptime)
  have trace: "map actual_times (loop_trace [s1, s2] [s1, s2] [Enter a1, Enter a2] st)
           = [actual_times st, (actual_times st)(1 \<mapsto> a1), (actual_times st)(1 \<mapsto> a1, 2 \<mapsto> a2)]"
    by (simp add: s1_def s2_def)
  have first: "format_deviation a1 (target_time s1) = (''+'', 1, 30, 90)"
    by (simp add: a1_def s1_def eval_rows)
  have late: "color_for_deviation 90 = RED"
    by (simp add: color_for_deviation_def)
  have view1: "map (\<lambda>r. (deviation_colored r, travel_str r)) (tail_rows [1 \<mapsto> a1] None [s1, s2])
           = [(RED @ ''+1m 30s'' @ RESET, ''-''), (''-'', ''-'')]"
    by (simp add: a1_def s1_def s2_def eval_rows eval_text)
  have view2: "map (\<lambda>r. (deviation_colored r, travel_str r)) (tail_rows [1 \<mapsto> a1, 2 \<mapsto> a2] None [s1, s2])
           = [(RED @ ''+1m 30s'' @ RESET, ''-''), (RED @ ''+2m 0s'' @ RESET, ''2m 30s'')]"
    by (simp add: a1_def a2_def s1_def s2_def eval_rows eval_text)
  have exported: "map (drop 4) (export_rows [1 \<mapsto> a1, 2 \<mapsto> a2] None [s1, s2])
           = [[S ''+1m 30s'', I 90, S ''''], [S ''+2m 0s'', I 120, S ''2m 30s'']]"
    by (simp add: a1_def a2_def s1_def s2_def eval_rows eval_text)
  have logged: "actual_times (snd (main_loop [s1, s2] [s1, s2] [Enter a1, Enter a2]
                  \<lparr>actual_times = Map.empty, stdout = banner\<rparr>)) = [1 \<mapsto> a1, 2 \<mapsto> a2]"
    by (simp add: s1_def s2_def)
  have "map_option (map (drop 4))
             (csv (run [\<lparr>sequence = 1, time = ''09:43'', stop = ''A''\<rparr>,
                        \<lparr>sequence = 2, time = ''09:45'', stop = ''B''\<rparr>] today [Enter a1, Enter a2]))
           = Some [drop 4 csv_header, [S ''+1m 30s'', I 90, S ''''], [S ''+2m 0s'', I 120, S ''2m 30s'']]"
    unfolding run_result [OF converted]
    by (simp add: main_loop_raised export_csv_def logged exported del: main_loop.simps export_rows.simps)
  with converted trace first late view1 view2 exported show ?thesis
    by blast
qed

end
